theory Spec2Isabelle
  imports Main "HOL-Library.Code_Target_Nat"
begin

section \<open>Python values\<close>

text \<open>
  The cells of a data frame and the arguments of \<^verbatim>\<open>format_item_number\<close> are
  dynamically typed. A float is an IEEE double: \<open>Finite s m e\<close> is the number
  \<open>(-1)^s * m * 2^e\<close>, so that both zeros exist; \<open>Infinity s\<close> carries its sign.
\<close>

datatype pyfloat = Finite bool nat int | Infinity bool | NaN

text \<open>
  A Python string is the list of its code points. \<open>str\<close> makes one of ASCII characters.
\<close>

type_synonym pystr = "nat list"

definition str :: "string \<Rightarrow> pystr" where
  "str s = map of_char s"

datatype pyval = PNone | PBool bool | PInt int | PFloat pyfloat | PStr pystr

datatype py_exn = ValueError | TypeError | OverflowError

subsection \<open>Rounding\<close>

text \<open>Nearest integer to \<open>n / d\<close>, a tie going to the even neighbour.\<close>

definition round_half_even :: "nat \<Rightarrow> nat \<Rightarrow> nat" where
  "round_half_even n d =
     (let q = n div d; r = n mod d
      in if 2 * r < d then q
         else if d < 2 * r then q + 1
         else if even q then q else q + 1)"

fun bitlen :: "nat \<Rightarrow> nat" where
  "bitlen n = (if n = 0 then 0 else Suc (bitlen (n div 2)))"

declare bitlen.simps [simp del]

text \<open>\<open>n / d\<close> divided by \<open>2^t\<close>, as a fraction again.\<close>

definition scale2 :: "nat \<Rightarrow> nat \<Rightarrow> int \<Rightarrow> nat \<times> nat" where
  "scale2 n d t = (if 0 \<le> t then (n, d * 2 ^ nat t) else (n * 2 ^ nat (- t), d))"

text \<open>The integer \<open>e\<close> with \<open>2^e \<le> n / d < 2^(e+1)\<close>, for positive \<open>n\<close> and \<open>d\<close>.\<close>

definition binary_exponent :: "nat \<Rightarrow> nat \<Rightarrow> int" where
  "binary_exponent n d =
     (let k = int (bitlen n) - int (bitlen d); (a, b) = scale2 n d k
      in if b \<le> a then k else k - 1)"

text \<open>
  The double nearest to \<open>n / d\<close> (53 bits of mantissa, least exponent \<open>-1074\<close>, ties
  to even); \<open>None\<close> when the rounded value does not fit below \<open>2^1024\<close>.
\<close>

definition round_to_double :: "nat \<Rightarrow> nat \<Rightarrow> (nat \<times> int) option" where
  "round_to_double n d =
     (if n = 0 then Some (0, 0)
      else
        let e = binary_exponent n d;
            t = max (e - 52) (- 1074);
            (a, b) = scale2 n d t;
            m = round_half_even a b
        in if 971 < t \<or> (t = 971 \<and> 2 ^ 53 \<le> m) then None else Some (m, t))"

subsection \<open>\<^verbatim>\<open>float(x)\<close>\<close>

definition is_space :: "char \<Rightarrow> bool" where
  "is_space c \<longleftrightarrow>
     c = CHR '' '' \<or> c = CHR 0x09 \<or> c = CHR 0x0A \<or> c = CHR 0x0B \<or> c = CHR 0x0C \<or> c = CHR 0x0D"

definition strip :: "string \<Rightarrow> string" where
  "strip s = rev (dropWhile is_space (rev (dropWhile is_space s)))"

definition digit_of :: "char \<Rightarrow> nat option" where
  "digit_of c = map_of (zip ''0123456789'' [0..<10]) c"

text \<open>
  A \<^verbatim>\<open>digitpart\<close> of the float grammar: digits, with single underscores allowed
  between two digits. The whole string has to be one.
\<close>

fun digitpart :: "string \<Rightarrow> nat list option" where
  "digitpart [] = None"
| "digitpart [c] = map_option (\<lambda>d. [d]) (digit_of c)"
| "digitpart (c # u # cs) =
     (case digit_of c of
        None \<Rightarrow> None
      | Some d \<Rightarrow>
          if u = CHR ''_'' then map_option ((#) d) (digitpart cs)
          else map_option ((#) d) (digitpart (u # cs)))"

definition nat_of_digits :: "nat list \<Rightarrow> nat" where
  "nat_of_digits ds = foldl (\<lambda>a d. 10 * a + d) 0 ds"

fun split_sign :: "string \<Rightarrow> bool \<times> string" where
  "split_sign [] = (False, [])"
| "split_sign (c # cs) =
     (if c = CHR ''-'' then (True, cs)
      else if c = CHR ''+'' then (False, cs)
      else (False, c # cs))"

definition lower :: "char \<Rightarrow> char" where
  "lower c =
     (if c = CHR ''I'' then CHR ''i'' else if c = CHR ''N'' then CHR ''n''
      else if c = CHR ''F'' then CHR ''f'' else if c = CHR ''T'' then CHR ''t''
      else if c = CHR ''Y'' then CHR ''y'' else if c = CHR ''A'' then CHR ''a''
      else c)"

definition is_exp_mark :: "char \<Rightarrow> bool" where
  "is_exp_mark c \<longleftrightarrow> c = CHR ''e'' \<or> c = CHR ''E''"

text \<open>
  \<^verbatim>\<open>number ::= [digitpart] "." digitpart | digitpart ["."]\<close>: the digits before and
  after the point.
\<close>

definition parse_number :: "string \<Rightarrow> (nat list \<times> nat list) option" where
  "parse_number s =
     (let ip = takeWhile (\<lambda>c. c \<noteq> CHR ''.'') s;
          r = dropWhile (\<lambda>c. c \<noteq> CHR ''.'') s
      in if r = [] then map_option (\<lambda>ds. (ds, [])) (digitpart ip)
         else if ip = [] then map_option (\<lambda>fs. ([], fs)) (digitpart (tl r))
         else
           (case digitpart ip of
              None \<Rightarrow> None
            | Some ds \<Rightarrow>
                if tl r = [] then Some (ds, [])
                else map_option (\<lambda>fs. (ds, fs)) (digitpart (tl r))))"

text \<open>\<^verbatim>\<open>exponent ::= ("e" | "E") [sign] digitpart\<close>, absent when the string is empty.\<close>

definition parse_exponent :: "string \<Rightarrow> int option" where
  "parse_exponent s =
     (if s = [] then Some 0
      else
        (case split_sign (tl s) of
           (neg, ds) \<Rightarrow>
             map_option (\<lambda>x. if neg then - int (nat_of_digits x) else int (nat_of_digits x))
               (digitpart ds)))"

definition float_of_fraction :: "bool \<Rightarrow> nat \<Rightarrow> nat \<Rightarrow> pyfloat" where
  "float_of_fraction neg n d =
     (case round_to_double n d of
        None \<Rightarrow> Infinity neg
      | Some (m, t) \<Rightarrow> Finite neg m t)"

text \<open>
  \<^verbatim>\<open>float(s)\<close> on an ASCII string: surrounding blanks are dropped, then comes a sign and
  \<^verbatim>\<open>inf\<close>, \<^verbatim>\<open>infinity\<close>, \<^verbatim>\<open>nan\<close> (in any case) or a decimal number with an
  optional exponent. The decimal value is rounded to the nearest double, and to an
  infinity beyond the range. Anything else raises \<^verbatim>\<open>ValueError\<close>.
\<close>

definition float_of_ascii :: "string \<Rightarrow> py_exn + pyfloat" where
  "float_of_ascii s =
     (case split_sign (strip s) of
        (neg, body) \<Rightarrow>
          if map lower body = ''inf'' \<or> map lower body = ''infinity'' then Inr (Infinity neg)
          else if map lower body = ''nan'' then Inr NaN
          else
            (case parse_number (takeWhile (\<lambda>c. \<not> is_exp_mark c) body) of
               None \<Rightarrow> Inl ValueError
             | Some (ds, fs) \<Rightarrow>
                 (case parse_exponent (dropWhile (\<lambda>c. \<not> is_exp_mark c) body) of
                    None \<Rightarrow> Inl ValueError
                  | Some x \<Rightarrow>
                      let m = nat_of_digits (ds @ fs); p = x - int (length fs)
                      in Inr (if 0 \<le> p then float_of_fraction neg (m * 10 ^ nat p) 1
                              else float_of_fraction neg m (10 ^ nat (- p))))))"

text \<open>
  What \<^verbatim>\<open>float\<close> does first with a string: one of ASCII characters only stays as it
  is; in any other, a white space character above 126 becomes a blank and a decimal
  digit its ASCII digit, and the string ends in a question mark at the first other
  character above 126. So blanks of any script are dropped around the number, digits
  of any script are read, and every other character is refused. The white space
  characters and the decimal digits are those of Unicode 14.0, the tables of
  Python 3.11; the decimal digits come in runs of ten, from the zero of a script to
  its nine, and \<open>decimal_zeros\<close> lists the zeros.
\<close>

definition unicode_whitespace :: "nat list" where
  "unicode_whitespace =
     [9, 10, 11, 12, 13, 28, 29, 30, 31, 32, 133, 160, 5760] @ [8192 ..< 8203] @
     [8232, 8233, 8239, 8287, 12288]"

definition decimal_zeros :: "nat list" where
  "decimal_zeros =
     [48, 1632, 1776, 1984, 2406, 2534, 2662, 2790, 2918, 3046, 3174, 3302, 3430, 3558,
      3664, 3792, 3872, 4160, 4240, 6112, 6160, 6470, 6608, 6784, 6800, 6992, 7088, 7232,
      7248, 42528, 43216, 43264, 43472, 43504, 43600, 44016, 65296, 66720, 68912, 69734,
      69872, 69942, 70096, 70384, 70736, 70864, 71248, 71360, 71472, 71904, 72016, 72784,
      73040, 73120, 92768, 92864, 93008, 120782, 120792, 120802, 120812, 120822, 123200,
      123632, 125264, 130032]"

definition is_unicode_space :: "nat \<Rightarrow> bool" where
  "is_unicode_space n \<longleftrightarrow> List.member unicode_whitespace n"

definition to_decimal :: "nat \<Rightarrow> nat option" where
  "to_decimal n = map_option (\<lambda>z. n - z) (find (\<lambda>z. z \<le> n \<and> n < z + 10) decimal_zeros)"

fun to_ascii :: "pystr \<Rightarrow> string" where
  "to_ascii [] = []"
| "to_ascii (n # cs) =
     (if n < 127 then char_of n # to_ascii cs
      else if is_unicode_space n then CHR '' '' # to_ascii cs
      else
        (case to_decimal n of
           Some d \<Rightarrow> char_of (48 + d) # to_ascii cs
         | None \<Rightarrow> ''?''))"

definition transform_decimal_and_space_to_ascii :: "pystr \<Rightarrow> string" where
  "transform_decimal_and_space_to_ascii s =
     (if list_all (\<lambda>n. n < 128) s then map char_of s else to_ascii s)"

definition float_of_string :: "pystr \<Rightarrow> py_exn + pyfloat" where
  "float_of_string s = float_of_ascii (transform_decimal_and_space_to_ascii s)"

text \<open>
  \<^verbatim>\<open>float(x)\<close> on any value: a float is itself, an integer is rounded (one too large
  raises \<^verbatim>\<open>OverflowError\<close>), \<^verbatim>\<open>None\<close> raises \<^verbatim>\<open>TypeError\<close>.
\<close>

fun py_float :: "pyval \<Rightarrow> py_exn + pyfloat" where
  "py_float PNone = Inl TypeError"
| "py_float (PBool b) = Inr (Finite False (if b then 1 else 0) 0)"
| "py_float (PInt i) =
     (case round_to_double (nat \<bar>i\<bar>) 1 of
        None \<Rightarrow> Inl OverflowError
      | Some (m, t) \<Rightarrow> Inr (Finite (i < 0) m t))"
| "py_float (PFloat f) = Inr f"
| "py_float (PStr s) = float_of_string s"

subsection \<open>\<^verbatim>\<open>'{:.0f}'.format(x)\<close>\<close>

definition digit_char :: "nat \<Rightarrow> char" where
  "digit_char d = ''0123456789'' ! d"

fun show_nat :: "nat \<Rightarrow> string" where
  "show_nat n = (if n < 10 then [digit_char n] else show_nat (n div 10) @ [digit_char (n mod 10)])"

declare show_nat.simps [simp del]

text \<open>
  Fixed-point notation with no digit after the point: the double is rounded to the
  nearest integer (ties to even) and printed in decimal; the sign of a negative
  number stays, also in front of a zero. The special values print as words.
\<close>

fun format_0f :: "pyfloat \<Rightarrow> string" where
  "format_0f (Finite neg m t) =
     (if neg then ''-'' else '''') @
     show_nat (if 0 \<le> t then m * 2 ^ nat t else round_half_even m (2 ^ nat (- t)))"
| "format_0f (Infinity neg) = (if neg then ''-inf'' else ''inf'')"
| "format_0f NaN = ''nan''"

subsection \<open>Truth value and comparison\<close>

fun truthy :: "pyval \<Rightarrow> bool" where
  "truthy PNone = False"
| "truthy (PBool b) = b"
| "truthy (PInt i) = (i \<noteq> 0)"
| "truthy (PFloat (Finite neg m t)) = (m \<noteq> 0)"
| "truthy (PFloat (Infinity neg)) = True"
| "truthy (PFloat NaN) = True"
| "truthy (PStr s) = (s \<noteq> [])"

text \<open>\<^verbatim>\<open>x > 0\<close>: a string or \<^verbatim>\<open>None\<close> against an integer raises \<^verbatim>\<open>TypeError\<close>.\<close>

fun gt_zero :: "pyval \<Rightarrow> py_exn + bool" where
  "gt_zero PNone = Inl TypeError"
| "gt_zero (PBool b) = Inr b"
| "gt_zero (PInt i) = Inr (0 < i)"
| "gt_zero (PFloat (Finite neg m t)) = Inr (\<not> neg \<and> 0 < m)"
| "gt_zero (PFloat (Infinity neg)) = Inr (\<not> neg)"
| "gt_zero (PFloat NaN) = Inr False"
| "gt_zero (PStr s) = Inl TypeError"

section \<open>The program\<close>

subsection \<open>\<^verbatim>\<open>format_item_number\<close>\<close>

definition format_item_number :: "pyval \<Rightarrow> py_exn + string" where
  "format_item_number item_number =
     (if truthy item_number then
        (case py_float item_number of
           Inl e \<Rightarrow> Inl e
         | Inr f \<Rightarrow> Inr (format_0f f))
      else Inr '''')"

subsection \<open>Data frames and uploads\<close>

text \<open>
  A row of a data frame gives a cell for every column name; only the names in
  \<open>columns\<close> are columns of the frame, and the program reads a cell only after it
  has checked that its column is there.
\<close>

type_synonym row = "string \<Rightarrow> pyval"

record dataframe =
  columns :: "string list"
  rows :: "row list"

text \<open>
  What \<^verbatim>\<open>pd.read_csv\<close> makes of an uploaded file: it raises an exception, whose text
  is kept, or it returns a frame.
\<close>

datatype upload = Unreadable string | Frame dataframe

text \<open>\<^verbatim>\<open>sep.join(xs)\<close>\<close>

fun join :: "string \<Rightarrow> string list \<Rightarrow> string" where
  "join sep [] = []"
| "join sep [x] = x"
| "join sep (x # y # ys) = x @ sep @ join sep (y # ys)"

text \<open>
  \<open>Inl msg\<close>: \<^verbatim>\<open>st.error(msg)\<close> is shown and \<^verbatim>\<open>None\<close> is returned.
\<close>

definition read_csv_filtered :: "upload \<Rightarrow> string list \<Rightarrow> string + dataframe" where
  "read_csv_filtered file expected_columns =
     (case file of
        Unreadable e \<Rightarrow> Inl (''Error reading the CSV file: '' @ e)
      | Frame df \<Rightarrow>
          let missing_columns = filter (\<lambda>col. col \<notin> set (columns df)) expected_columns
          in if missing_columns \<noteq> []
             then Inl (''Missing expected columns: '' @ join '', '' missing_columns)
             else Inr df)"

subsection \<open>Loading and normalising the two files\<close>

text \<open>\<^verbatim>\<open>df[name]\<close>: the cells of a column.\<close>

definition column :: "string \<Rightarrow> row list \<Rightarrow> pyval list" where
  "column name rs = map (\<lambda>r. r name) rs"

text \<open>\<^verbatim>\<open>series.apply(f)\<close>: the first element on which \<open>f\<close> raises ends the call.\<close>

fun apply_series :: "('a \<Rightarrow> py_exn + 'b) \<Rightarrow> 'a list \<Rightarrow> py_exn + 'b list" where
  "apply_series f [] = Inr []"
| "apply_series f (x # xs) =
     (case f x of
        Inl e \<Rightarrow> Inl e
      | Inr y \<Rightarrow>
          (case apply_series f xs of
             Inl e \<Rightarrow> Inl e
           | Inr ys \<Rightarrow> Inr (y # ys)))"

text \<open>
  Timestamps count nanoseconds and carry no time zone, like \<^verbatim>\<open>datetime.now()\<close>.
  \<^verbatim>\<open>pd.to_datetime(column, errors='coerce')\<close> is a parameter \<open>to_datetime\<close> of the
  model: \<open>to_datetime cells cell\<close> is the timestamp it gives a cell of the column
  \<open>cells\<close>, or \<^verbatim>\<open>NaT\<close>, which is \<open>None\<close> here, where the cell does not parse. The column
  is an argument because pandas may settle on one date format for a whole column.
\<close>

type_synonym date_parser = "pyval list \<Rightarrow> pyval \<Rightarrow> int option"

record order_record =
  order_item :: string
  sale_date :: "int option"

record listing_record =
  listing_item :: string
  start_date :: "int option"
  available_quantity :: pyval

text \<open>
  A run of \<^verbatim>\<open>process_ebay_data\<close> that does not return two frames either shows a
  message and returns \<^verbatim>\<open>(None, None)\<close>, or ends in an exception nobody catches.
\<close>

datatype failure = Reported string | Raised py_exn

definition expected_order_columns :: "string list" where
  "expected_order_columns = [''Item number'', ''Sale date'']"

definition expected_listing_columns :: "string list" where
  "expected_listing_columns = [''Item number'', ''Start date'', ''Available quantity'']"

text \<open>Lines 24 to 31 of \<^verbatim>\<open>main.py\<close>: the order file with its two columns normalised.\<close>

definition order_records :: "date_parser \<Rightarrow> upload \<Rightarrow> failure + order_record list" where
  "order_records to_datetime order_file =
     (case read_csv_filtered order_file expected_order_columns of
        Inl msg \<Rightarrow> Inl (Reported msg)
      | Inr order_data \<Rightarrow>
          (case apply_series format_item_number (column ''Item number'' (rows order_data)) of
             Inl e \<Rightarrow> Inl (Raised e)
           | Inr items \<Rightarrow>
               Inr (map (\<lambda>(i, r).
                      \<lparr>order_item = i,
                       sale_date = to_datetime (column ''Sale date'' (rows order_data))
                                     (r ''Sale date'')\<rparr>)
                    (zip items (rows order_data)))))"

text \<open>Line 32.\<close>

definition dropna :: "order_record list \<Rightarrow> order_record list" where
  "dropna order_data = filter (\<lambda>r. sale_date r \<noteq> None) order_data"

definition load_orders :: "date_parser \<Rightarrow> upload \<Rightarrow> failure + order_record list" where
  "load_orders to_datetime order_file =
     (case order_records to_datetime order_file of
        Inl f \<Rightarrow> Inl f
      | Inr order_data \<Rightarrow> Inr (dropna order_data))"

text \<open>Lines 34 to 41.\<close>

definition load_listings :: "date_parser \<Rightarrow> upload \<Rightarrow> failure + listing_record list" where
  "load_listings to_datetime listing_file =
     (case read_csv_filtered listing_file expected_listing_columns of
        Inl msg \<Rightarrow> Inl (Reported msg)
      | Inr listing_data \<Rightarrow>
          (case apply_series format_item_number (column ''Item number'' (rows listing_data)) of
             Inl e \<Rightarrow> Inl (Raised e)
           | Inr items \<Rightarrow>
               Inr (map (\<lambda>(i, r).
                      \<lparr>listing_item = i,
                       start_date = to_datetime (column ''Start date'' (rows listing_data))
                                      (r ''Start date''),
                       available_quantity = r ''Available quantity''\<rparr>)
                    (zip items (rows listing_data)))))"

subsection \<open>Classification\<close>

definition sixty_days :: int where
  "sixty_days = 60 * 86400 * 1000000000"

text \<open>A comparison with \<^verbatim>\<open>NaT\<close> is false.\<close>

fun later_than :: "int option \<Rightarrow> int \<Rightarrow> bool" where
  "later_than None c = False"
| "later_than (Some d) c = (c < d)"

fun earlier_than :: "int option \<Rightarrow> int \<Rightarrow> bool" where
  "earlier_than None c = False"
| "earlier_than (Some d) c = (d < c)"

text \<open>
  The loop of lines 48 to 54. \<^verbatim>\<open>and\<close> evaluates its operands from the left and
  stops at the first false one, so the quantity of a sold item is never compared.
\<close>

fun unsold_loop ::
  "string set \<Rightarrow> int \<Rightarrow> listing_record list \<Rightarrow> string list \<Rightarrow> py_exn + string list" where
  "unsold_loop sold_items sixty_days_ago [] unsold_items = Inr unsold_items"
| "unsold_loop sold_items sixty_days_ago (row # rest) unsold_items =
     (if listing_item row \<notin> sold_items then
        (case gt_zero (available_quantity row) of
           Inl e \<Rightarrow> Inl e
         | Inr positive \<Rightarrow>
             if positive \<and> earlier_than (start_date row) sixty_days_ago
             then unsold_loop sold_items sixty_days_ago rest (unsold_items @ [listing_item row])
             else unsold_loop sold_items sixty_days_ago rest unsold_items)
      else unsold_loop sold_items sixty_days_ago rest unsold_items)"

text \<open>
  Lines 43 to 58. \<^verbatim>\<open>list(sold_items)\<close> lists every member of the set once, in an
  order Python does not fix; the model lists them with \<open>remdups\<close>.
\<close>

definition classify ::
  "int \<Rightarrow> order_record list \<Rightarrow> listing_record list \<Rightarrow> py_exn + (string list \<times> string list)" where
  "classify now order_data listing_data =
     (let sixty_days_ago = now - sixty_days;
          recent_sales = filter (\<lambda>r. later_than (sale_date r) sixty_days_ago) order_data;
          sold_items = set (map order_item recent_sales);
          sold = remdups (map order_item recent_sales)
      in case unsold_loop sold_items sixty_days_ago listing_data [] of
           Inl e \<Rightarrow> Inl e
         | Inr unsold_items \<Rightarrow> Inr (sold, unsold_items))"

subsection \<open>\<^verbatim>\<open>process_ebay_data\<close>\<close>

text \<open>
  \<open>now\<close> is what \<^verbatim>\<open>datetime.now()\<close> returns in line 43. The result \<open>Inr (sold, unsold)\<close>
  stands for the two one-column frames \<^verbatim>\<open>sold_df\<close> and \<^verbatim>\<open>unsold_df\<close>.
\<close>

definition process_ebay_data ::
  "date_parser \<Rightarrow> int \<Rightarrow> upload \<Rightarrow> upload \<Rightarrow> failure + (string list \<times> string list)" where
  "process_ebay_data to_datetime now listing_file order_file =
     (case load_orders to_datetime order_file of
        Inl f \<Rightarrow> Inl f
      | Inr order_data \<Rightarrow>
          (case load_listings to_datetime listing_file of
             Inl f \<Rightarrow> Inl f
           | Inr listing_data \<Rightarrow>
               (case classify now order_data listing_data of
                  Inl e \<Rightarrow> Inl (Raised e)
                | Inr result \<Rightarrow> Inr result)))"

subsection \<open>The session\<close>

text \<open>
  Lines 74 to 87: the two frames kept in \<^verbatim>\<open>st.session_state\<close>, and what pressing the
  button does to them. An exception ends the script before line 85; a returned
  \<^verbatim>\<open>(None, None)\<close> fails the test of line 85.
\<close>

record session_state =
  sold_df :: "string list option"
  unsold_df :: "string list option"

definition initial_state :: session_state where
  "initial_state = \<lparr>sold_df = None, unsold_df = None\<rparr>"

definition process_data_button ::
  "date_parser \<Rightarrow> int \<Rightarrow> upload \<Rightarrow> upload \<Rightarrow> session_state \<Rightarrow> session_state" where
  "process_data_button to_datetime now listing_file order_file st =
     (case process_ebay_data to_datetime now listing_file order_file of
        Inl f \<Rightarrow> st
      | Inr (sold, unsold) \<Rightarrow> st\<lparr>sold_df := Some sold, unsold_df := Some unsold\<rparr>)"

text \<open>
  Streamlit runs the script again at every press of the button and keeps
  \<^verbatim>\<open>st.session_state\<close> between the runs: a sequence of presses, each with the files then
  uploaded and the time then read, and the presses that fail.
\<close>

type_synonym press = "date_parser \<times> int \<times> upload \<times> upload"

fun press_all :: "press list \<Rightarrow> session_state \<Rightarrow> session_state" where
  "press_all [] st = st"
| "press_all ((to_datetime, now, listing_file, order_file) # ps) st =
     press_all ps (process_data_button to_datetime now listing_file order_file st)"

fun failed :: "press \<Rightarrow> bool" where
  "failed (to_datetime, now, listing_file, order_file) =
     isl (process_ebay_data to_datetime now listing_file order_file)"

section \<open>The notions of the specification\<close>

text \<open>
  The Sold set of the specification: the distinct item identifiers of the order
  records whose sale date falls after \<open>now - 60 days\<close>.
\<close>

definition sold_set :: "int \<Rightarrow> order_record list \<Rightarrow> string set" where
  "sold_set now order_data =
     order_item ` {r \<in> set order_data. \<exists>d. sale_date r = Some d \<and> now - sixty_days < d}"

text \<open>
  The condition of the specification on a listing record of the Unsold sequence: its
  identifier is not in the Sold set, its available quantity is positive and its
  start date is before the cutoff.
\<close>

definition qualifies :: "string set \<Rightarrow> int \<Rightarrow> listing_record \<Rightarrow> bool" where
  "qualifies sold cutoff r \<longleftrightarrow>
     listing_item r \<notin> sold \<and> gt_zero (available_quantity r) = Inr True \<and>
     earlier_than (start_date r) cutoff"

text \<open>\<^verbatim>\<open>x == 0\<close>\<close>

fun eq_zero :: "pyval \<Rightarrow> bool" where
  "eq_zero (PBool b) = (\<not> b)"
| "eq_zero (PInt i) = (i = 0)"
| "eq_zero (PFloat (Finite neg m t)) = (m = 0)"
| "eq_zero v = False"

definition is_digit :: "char \<Rightarrow> bool" where
  "is_digit c \<longleftrightarrow> digit_of c \<noteq> None"

text \<open>An integer in decimal: digits only, after an optional minus sign.\<close>

fun is_integer_string :: "string \<Rightarrow> bool" where
  "is_integer_string [] = False"
| "is_integer_string (c # cs) =
     (if c = CHR ''-'' then cs \<noteq> [] \<and> list_all is_digit cs else list_all is_digit (c # cs))"

text \<open>
  The integer that \<^verbatim>\<open>int\<close> reads from an integer string: a sign, then decimal digits.
\<close>

definition int_of_string :: "string \<Rightarrow> int option" where
  "int_of_string s =
     (case split_sign s of
        (neg, ds) \<Rightarrow>
          map_option (\<lambda>x. if neg then - int (nat_of_digits x) else int (nat_of_digits x))
            (digitpart ds))"

text \<open>
  \<open>N\<close> is the integer nearest to \<open>m * 2^t\<close>, and the even one of the two when two are
  equally near.
\<close>

definition is_nearest_even :: "nat \<Rightarrow> nat \<Rightarrow> int \<Rightarrow> bool" where
  "is_nearest_even N m t \<longleftrightarrow>
     (if 0 \<le> t then N = m * 2 ^ nat t
      else 2 * \<bar>int N * 2 ^ nat (- t) - int m\<bar> \<le> 2 ^ nat (- t) \<and>
           (2 * \<bar>int N * 2 ^ nat (- t) - int m\<bar> = 2 ^ nat (- t) \<longrightarrow> even N))"

definition one_second :: int where
  "one_second = 1000000000"

definition one_day :: int where
  "one_day = 86400 * one_second"

section \<open>Example inputs\<close>

text \<open>
  A date parser for the examples: an integer cell is a timestamp in nanoseconds, as
  \<^verbatim>\<open>pd.to_datetime\<close> reads it, and every other cell is taken not to parse.
\<close>

definition to_datetime_ns :: date_parser where
  "to_datetime_ns cells v = (case v of PInt n \<Rightarrow> Some n | _ \<Rightarrow> None)"

text \<open>Rows of the two files; a column that is not named holds an empty cell.\<close>

definition order_row :: "pyval \<Rightarrow> pyval \<Rightarrow> row" where
  "order_row item sale =
     (\<lambda>col. if col = ''Item number'' then item
            else if col = ''Sale date'' then sale else PFloat NaN)"

definition listing_row :: "pyval \<Rightarrow> pyval \<Rightarrow> pyval \<Rightarrow> row" where
  "listing_row item start qty =
     (\<lambda>col. if col = ''Item number'' then item
            else if col = ''Start date'' then start
            else if col = ''Available quantity'' then qty else PFloat NaN)"

definition order_frame :: "row list \<Rightarrow> upload" where
  "order_frame rs = Frame \<lparr>columns = [''Item number'', ''Sale date''], rows = rs\<rparr>"

definition listing_frame :: "row list \<Rightarrow> upload" where
  "listing_frame rs =
     Frame \<lparr>columns = [''Item number'', ''Start date'', ''Available quantity''], rows = rs\<rparr>"

text \<open>
  The end-to-end example of the specification, run on day 1000: item 100 was sold 5
  days ago; items 100 and 200 are listed with quantity 1 since 90 days.
\<close>

definition example_orders :: upload where
  "example_orders = order_frame [order_row (PStr (str ''100'')) (PInt (1000 * one_day - 5 * one_day))]"

definition example_listings :: upload where
  "example_listings =
     listing_frame
       [listing_row (PStr (str ''100'')) (PInt (1000 * one_day - 90 * one_day)) (PInt 1),
        listing_row (PStr (str ''200'')) (PInt (1000 * one_day - 90 * one_day)) (PInt 1)]"

section \<open>Lemmas about the model\<close>

lemma apply_series_length: "apply_series f xs = Inr ys \<Longrightarrow> length ys = length xs"
  by (induction xs arbitrary: ys) (auto split: sum.splits)


lemma filter_without_nth:
  assumes "k < length xs" and "\<not> P (xs ! k)"
  shows "filter P xs = filter P (take k xs @ drop (Suc k) xs)"
proof -
  have "filter P (take k xs @ xs ! k # drop (Suc k) xs) = filter P (take k xs @ drop (Suc k) xs)"
    using assms(2) by simp
  with id_take_nth_drop [OF assms(1)] show ?thesis by metis
qed

lemma unsold_loop_Inr:
  "unsold_loop S c rs acc = Inr out \<Longrightarrow>
     out = acc @ map listing_item (filter (qualifies S c) rs)"
  by (induction rs arbitrary: acc) (fastforce simp: qualifies_def split: if_splits sum.splits)+

lemma unsold_loop_append:
  "unsold_loop S c (xs @ ys) acc =
     (case unsold_loop S c xs acc of Inl e \<Rightarrow> Inl e | Inr a \<Rightarrow> unsold_loop S c ys a)"
  by (induction xs arbitrary: acc) (auto split: sum.splits)

lemma gt_zero_eq_zero: "eq_zero v \<Longrightarrow> gt_zero v = Inr False"
  by (induction v rule: eq_zero.induct) auto

lemma unsold_loop_cong_row:
  assumes "listing_item l = listing_item l'"
    and "available_quantity l = available_quantity l'"
    and "earlier_than (start_date l) c = earlier_than (start_date l') c"
  shows "unsold_loop S c (lp @ l # lq) acc = unsold_loop S c (lp @ l' # lq) acc"
  using assms by (simp add: unsold_loop_append split: sum.splits)

lemma order_records_rows:
  "order_records td (Frame \<lparr>columns = cs, rows = rs\<rparr>) =
     (if filter (\<lambda>col. col \<notin> set cs) expected_order_columns \<noteq> [] then
        Inl (Reported (''Missing expected columns: '' @
               join '', '' (filter (\<lambda>col. col \<notin> set cs) expected_order_columns)))
      else
        (case apply_series format_item_number (column ''Item number'' rs) of
           Inl e \<Rightarrow> Inl (Raised e)
         | Inr items \<Rightarrow>
             Inr (map (\<lambda>(i, r). \<lparr>order_item = i,
                        sale_date = td (column ''Sale date'' rs) (r ''Sale date'')\<rparr>)
                  (zip items rs))))"
  by (simp add: order_records_def read_csv_filtered_def Let_def split: sum.splits)

lemma load_listings_rows:
  "load_listings td (Frame \<lparr>columns = cs, rows = rs\<rparr>) =
     (if filter (\<lambda>col. col \<notin> set cs) expected_listing_columns \<noteq> [] then
        Inl (Reported (''Missing expected columns: '' @
               join '', '' (filter (\<lambda>col. col \<notin> set cs) expected_listing_columns)))
      else
        (case apply_series format_item_number (column ''Item number'' rs) of
           Inl e \<Rightarrow> Inl (Raised e)
         | Inr items \<Rightarrow>
             Inr (map (\<lambda>(i, r).
                    \<lparr>listing_item = i,
                     start_date = td (column ''Start date'' rs) (r ''Start date''),
                     available_quantity = r ''Available quantity''\<rparr>)
                  (zip items rs))))"
  by (simp add: load_listings_def read_csv_filtered_def Let_def split: sum.splits)

lemma order_records_nth:
  assumes "order_records td (Frame \<lparr>columns = cs, rows = rs\<rparr>) = Inr all"
  shows "length all = length rs"
    and "k < length rs \<Longrightarrow>
      sale_date (all ! k) = td (column ''Sale date'' rs) ((rs ! k) ''Sale date'')"
proof -
  from assms obtain items where
    items: "apply_series format_item_number (column ''Item number'' rs) = Inr items"
    and all: "all = map (\<lambda>(i, r). \<lparr>order_item = i,
                        sale_date = td (column ''Sale date'' rs) (r ''Sale date'')\<rparr>)
                  (zip items rs)"
    by (auto simp: order_records_rows split: if_splits sum.splits)
  from apply_series_length [OF items] have len: "length items = length rs"
    by (simp add: column_def)
  with all show "length all = length rs" by simp
  show "sale_date (all ! k) = td (column ''Sale date'' rs) ((rs ! k) ''Sale date'')"
    if "k < length rs"
    using that len all by simp
qed

lemma load_listings_nth:
  assumes "load_listings td (Frame \<lparr>columns = cs, rows = rs\<rparr>) = Inr ls"
  shows "length ls = length rs"
    and "k < length rs \<Longrightarrow>
      start_date (ls ! k) = td (column ''Start date'' rs) ((rs ! k) ''Start date'') \<and>
      available_quantity (ls ! k) = (rs ! k) ''Available quantity''"
proof -
  from assms obtain items where
    items: "apply_series format_item_number (column ''Item number'' rs) = Inr items"
    and ls: "ls = map (\<lambda>(i, r).
                    \<lparr>listing_item = i,
                     start_date = td (column ''Start date'' rs) (r ''Start date''),
                     available_quantity = r ''Available quantity''\<rparr>)
                  (zip items rs)"
    by (auto simp: load_listings_rows split: if_splits sum.splits)
  from apply_series_length [OF items] have len: "length items = length rs"
    by (simp add: column_def)
  with ls show "length ls = length rs" by simp
  show "start_date (ls ! k) = td (column ''Start date'' rs) ((rs ! k) ''Start date'') \<and>
      available_quantity (ls ! k) = (rs ! k) ''Available quantity''"
    if "k < length rs"
    using that len ls by simp
qed

lemma later_than_iff: "later_than x c \<longleftrightarrow> (\<exists>d. x = Some d \<and> c < d)"
  by (cases x) auto

lemma earlier_than_iff: "earlier_than x c \<longleftrightarrow> (\<exists>d. x = Some d \<and> d < c)"
  by (cases x) auto

lemma sold_set_dropna: "sold_set now (dropna all) = sold_set now all"
  by (auto simp: sold_set_def dropna_def)

lemma classify_Inr:
  assumes "classify now os ls = Inr (sold, unsold)"
  shows "sold = remdups (map order_item
                   (filter (\<lambda>r. later_than (sale_date r) (now - sixty_days)) os))"
    and "set sold = sold_set now os"
    and "unsold = map listing_item (filter (qualifies (sold_set now os) (now - sixty_days)) ls)"
proof -
  let ?recent = "filter (\<lambda>r. later_than (sale_date r) (now - sixty_days)) os"
  have S: "set (map order_item ?recent) = sold_set now os"
    by (auto simp: sold_set_def later_than_iff)
  from assms show sold: "sold = remdups (map order_item ?recent)"
    by (auto simp: classify_def Let_def split: sum.splits)
  from sold S show "set sold = sold_set now os" by simp
  from assms have "unsold_loop (set (map order_item ?recent)) (now - sixty_days) ls [] = Inr unsold"
    by (auto simp: classify_def Let_def split: sum.splits)
  from unsold_loop_Inr [OF this] S
  show "unsold = map listing_item (filter (qualifies (sold_set now os) (now - sixty_days)) ls)"
    by simp
qed

lemma process_Inr:
  "process_ebay_data td now lf ofile = Inr res \<longleftrightarrow>
     (\<exists>os ls. load_orders td ofile = Inr os \<and> load_listings td lf = Inr ls \<and>
        classify now os ls = Inr res)"
  by (auto simp: process_ebay_data_def split: sum.splits)

lemma load_orders_fail_any_parser:
  "load_orders td ofile = Inl e \<longleftrightarrow> load_orders td' ofile = Inl e"
  by (auto simp: load_orders_def order_records_def split: sum.splits)

lemma unsold_without_row:
  assumes "process_ebay_data td now (Frame \<lparr>columns = cs, rows = rs\<rparr>) ofile = Inr (sold, unsold)"
    and "load_listings td (Frame \<lparr>columns = cs, rows = rs\<rparr>) = Inr ls"
    and "k < length rs"
    and "gt_zero ((rs ! k) ''Available quantity'') = Inr False \<or>
         td (column ''Start date'' rs) ((rs ! k) ''Start date'') = None"
  shows "unsold = map listing_item
           (filter (qualifies (set sold) (now - sixty_days)) (take k ls @ drop (Suc k) ls))"
proof -
  from assms(1,2) obtain os where c: "classify now os ls = Inr (sold, unsold)"
    by (auto simp: process_Inr)
  from load_listings_nth [OF assms(2)] assms(3) have k: "k < length ls"
    and row: "start_date (ls ! k) = td (column ''Start date'' rs) ((rs ! k) ''Start date'')"
      "available_quantity (ls ! k) = (rs ! k) ''Available quantity''"
    by auto
  from row assms(4) have "\<not> qualifies (set sold) (now - sixty_days) (ls ! k)"
    by (auto simp: qualifies_def)
  from filter_without_nth [where P = "qualifies (set sold) (now - sixty_days)", OF k this]
    classify_Inr(2,3) [OF c]
  show ?thesis by simp
qed






lemma digit_table: "list_all (\<lambda>d. digit_of (digit_char d) = Some d) [0..<10]"
  by code_simp

lemma digit_of_digit_char: "d < 10 \<Longrightarrow> digit_of (digit_char d) = Some d"
  using digit_table by (simp add: list_all_iff)

lemma is_digit_digit_char: "d < 10 \<Longrightarrow> is_digit (digit_char d)"
  by (simp add: is_digit_def digit_of_digit_char)

lemma show_nat_digits: "show_nat n \<noteq> [] \<and> list_all is_digit (show_nat n)"
proof (induction n rule: show_nat.induct)
  case (1 n)
  show ?case
  proof (cases "n < 10")
    case True
    then show ?thesis
      by (subst (1 2) show_nat.simps) (simp add: is_digit_digit_char)
  next
    case False
    with 1 show ?thesis
      by (subst (1 2) show_nat.simps) (simp add: is_digit_digit_char)
  qed
qed

lemma minus_no_digit: "\<not> is_digit CHR ''-''"
  by code_simp

lemma integer_string_format_0f: "is_integer_string (format_0f (Finite neg m t))"
proof -
  let ?ds = "show_nat (if 0 \<le> t then m * 2 ^ nat t else round_half_even m (2 ^ nat (- t)))"
  from show_nat_digits [of "if 0 \<le> t then m * 2 ^ nat t else round_half_even m (2 ^ nat (- t))"]
  obtain c cs where ds: "?ds = c # cs" "is_digit c" "list_all is_digit cs"
    by (cases ?ds) auto
  with minus_no_digit have "c \<noteq> CHR ''-''" by auto
  with ds show ?thesis by (cases neg) auto
qed

lemma round_half_even_nearest:
  assumes "0 < d"
  shows "2 * \<bar>int (round_half_even n d) * int d - int n\<bar> \<le> int d \<and>
         (2 * \<bar>int (round_half_even n d) * int d - int n\<bar> = int d \<longrightarrow>
            even (round_half_even n d))"
proof -
  define q r where "q = n div d" and "r = n mod d"
  have n: "int n = int q * int d + int r"
    unfolding q_def r_def by (simp flip: of_nat_mult of_nat_add)
  have r: "int r < int d"
    unfolding r_def using assms by simp
  have down: "2 * \<bar>int q * int d - int n\<bar> = 2 * int r"
    using n by simp
  have "int (q + 1) * int d - int n = int d - int r"
    using n by (simp add: algebra_simps)
  with r have up: "2 * \<bar>int (q + 1) * int d - int n\<bar> = 2 * int d - 2 * int r"
    by simp
  consider "2 * r < d" | "d < 2 * r" | "2 * r = d" by linarith
  then show ?thesis
  proof cases
    case 1
    then have N: "round_half_even n d = q"
      by (simp add: round_half_even_def Let_def q_def r_def)
    from 1 have "2 * int r < int d" by simp
    with down show ?thesis unfolding N by simp
  next
    case 2
    then have N: "round_half_even n d = q + 1"
      by (simp add: round_half_even_def Let_def q_def r_def)
    from 2 have "2 * int d - 2 * int r < int d" by simp
    with up show ?thesis unfolding N by simp
  next
    case 3
    then have tie: "2 * int r = int d" "2 * int d - 2 * int r = int d"
      by (simp_all flip: of_nat_mult)
    show ?thesis
    proof (cases "even q")
      case True
      with 3 have N: "round_half_even n d = q"
        by (simp add: round_half_even_def Let_def q_def r_def)
      from down tie True show ?thesis unfolding N by simp
    next
      case False
      with 3 have N: "round_half_even n d = q + 1"
        by (simp add: round_half_even_def Let_def q_def r_def)
      from up tie False show ?thesis unfolding N by simp
    qed
  qed
qed

lemma nearest_format: "is_nearest_even
    (if 0 \<le> t then m * 2 ^ nat t else round_half_even m (2 ^ nat (- t))) m t"
  using round_half_even_nearest [of "2 ^ nat (- t)" m]
  by (simp add: is_nearest_even_def)

lemma underscore_no_digit: "\<not> is_digit CHR ''_''"
  by code_simp

lemma plus_no_digit: "\<not> is_digit CHR ''+''"
  by code_simp

lemma digitpart_snoc:
  assumes "digitpart xs = Some ds" and "digit_of c = Some d"
  shows "digitpart (xs @ [c]) = Some (ds @ [d])"
  using assms
proof (induction xs arbitrary: ds rule: digitpart.induct)
  case 1
  then show ?case by simp
next
  case (2 x)
  from 2(2) underscore_no_digit have "c \<noteq> CHR ''_''"
    by (auto simp: is_digit_def)
  with 2 show ?case by (auto split: option.splits)
next
  case (3 x u cs)
  then show ?case by (auto split: option.splits if_splits)
qed

lemma nat_of_digits_snoc: "nat_of_digits (ds @ [d]) = 10 * nat_of_digits ds + d"
  by (simp add: nat_of_digits_def)

lemma digitpart_show_nat: "\<exists>ds. digitpart (show_nat n) = Some ds \<and> nat_of_digits ds = n"
proof (induction n rule: show_nat.induct)
  case (1 n)
  show ?case
  proof (cases "n < 10")
    case True
    then show ?thesis
      by (subst show_nat.simps) (simp add: digit_of_digit_char nat_of_digits_def)
  next
    case False
    with 1 obtain ds where ds: "digitpart (show_nat (n div 10)) = Some ds"
      "nat_of_digits ds = n div 10"
      by auto
    have "digit_of (digit_char (n mod 10)) = Some (n mod 10)"
      by (simp add: digit_of_digit_char)
    from digitpart_snoc [OF ds(1) this] ds(2) False show ?thesis
      by (subst show_nat.simps) (simp add: nat_of_digits_snoc)
  qed
qed

lemma int_of_string_format_0f:
  "int_of_string (format_0f (Finite neg m t)) =
     Some (if neg then - int (if 0 \<le> t then m * 2 ^ nat t else round_half_even m (2 ^ nat (- t)))
           else int (if 0 \<le> t then m * 2 ^ nat t else round_half_even m (2 ^ nat (- t))))"
proof -
  let ?N = "if 0 \<le> t then m * 2 ^ nat t else round_half_even m (2 ^ nat (- t))"
  from digitpart_show_nat [of ?N] obtain ds where
    ds: "digitpart (show_nat ?N) = Some ds" "nat_of_digits ds = ?N"
    by blast
  from show_nat_digits [of ?N] obtain c cs where
    c: "show_nat ?N = c # cs" "is_digit c"
    by (cases "show_nat ?N") auto
  with minus_no_digit plus_no_digit have "c \<noteq> CHR ''-''" "c \<noteq> CHR ''+''"
    by auto
  with c(1) have plain: "split_sign (show_nat ?N) = (False, show_nat ?N)"
    by simp
  show ?thesis
  proof (cases neg)
    case True
    with ds show ?thesis by (simp add: int_of_string_def)
  next
    case False
    with ds plain show ?thesis by (simp add: int_of_string_def)
  qed
qed

lemma sign_format_0f: "hd (format_0f (Finite neg m t)) = CHR ''-'' \<longleftrightarrow> neg"
proof -
  let ?N = "if 0 \<le> t then m * 2 ^ nat t else round_half_even m (2 ^ nat (- t))"
  from show_nat_digits [of ?N] obtain c cs where "show_nat ?N = c # cs" "is_digit c"
    by (cases "show_nat ?N") auto
  with minus_no_digit show ?thesis by (cases neg) auto
qed

lemma format_sample: "format_item_number (PStr (str ''123456789.0'')) = Inr ''123456789''"
  by code_simp

text \<open>
  White space and digits outside ASCII: a no-break space or an em space around the
  number is dropped, Arabic-Indic and full-width digits are read; a file separator
  and an accented letter are refused.
\<close>

lemma format_non_ascii_samples:
  "format_item_number (PStr (160 # str ''200'')) = Inr ''200''"
  "format_item_number (PStr (str ''12'' @ [8195])) = Inr ''12''"
  "format_item_number (PStr [133, 1633, 1634]) = Inr ''12''"
  "format_item_number (PStr [65297, 65298, 46, 65301]) = Inr ''12''"
  "format_item_number (PStr (28 # str ''12'')) = Inl ValueError"
  "format_item_number (PStr (233 # str ''12'')) = Inl ValueError"
  by code_simp+

lemma button_failed:
  "process_ebay_data td now lf ofile = Inl f \<Longrightarrow> process_data_button td now lf ofile st = st"
  by (simp add: process_data_button_def)

lemma button_succeeded:
  "process_ebay_data td now lf ofile = Inr (sold, unsold) \<Longrightarrow>
     process_data_button td now lf ofile st = \<lparr>sold_df = Some sold, unsold_df = Some unsold\<rparr>"
  by (cases st) (simp add: process_data_button_def)

lemma press_all_append: "press_all (xs @ ys) st = press_all ys (press_all xs st)"
  by (induction xs st rule: press_all.induct) auto

lemma press_all_failed: "list_all failed ps \<Longrightarrow> press_all ps st = st"
proof (induction ps st rule: press_all.induct)
  case (1 st)
  then show ?case by simp
next
  case (2 td now lf ofile ps st)
  then obtain f where "process_ebay_data td now lf ofile = Inl f"
    by (cases "process_ebay_data td now lf ofile") auto
  with 2 show ?case by (simp add: button_failed)
qed

section \<open>The claims\<close>

text \<open>
  Claim C1. Whenever the processing step returns its two frames, no item identifier
  of the Unsold frame is in the Sold frame of the same run.
\<close>

theorem sold_unsold_disjoint:
  assumes "process_ebay_data to_datetime now listing_file order_file = Inr (sold, unsold)"
  shows "set sold \<inter> set unsold = {}"
proof -
  from assms obtain os ls where "classify now os ls = Inr (sold, unsold)"
    by (auto simp: process_Inr)
  from classify_Inr(2,3) [OF this] show ?thesis
    by (auto simp: qualifies_def)
qed

theorem sold_unsold_disjoint_witness:
  "process_ebay_data to_datetime_ns (1000 * one_day) example_listings example_orders =
     Inr ([''100''], [''200'']) \<and> set [''100''] \<inter> set [''200''] = {}"
proof -
  have run: "process_ebay_data to_datetime_ns (1000 * one_day) example_listings example_orders =
     Inr ([''100''], [''200''])"
    by code_simp
  from sold_unsold_disjoint [OF run] run show ?thesis by simp
qed

text \<open>
  Claim C5. A listing row whose available quantity is zero adds nothing to the Unsold
  sequence, whatever its item identifier, its start date and the Sold set: the loop
  gives the same result with the row and without it, and in a run that returns its
  frames the Unsold frame is made from the records of the other rows alone.
\<close>

theorem zero_quantity_never_unsold:
  assumes "eq_zero q"
  shows "unsold_loop sold_items cutoff
           (before @ \<lparr>listing_item = i, start_date = d, available_quantity = q\<rparr> # after) acc =
         unsold_loop sold_items cutoff (before @ after) acc
       \<and> (\<forall>r ls sold unsold. r ''Available quantity'' = q \<and>
             load_listings to_datetime (Frame \<lparr>columns = cs, rows = pre @ r # post\<rparr>) = Inr ls \<and>
             process_ebay_data to_datetime now
               (Frame \<lparr>columns = cs, rows = pre @ r # post\<rparr>) order_file = Inr (sold, unsold) \<longrightarrow>
             unsold = map listing_item
               (filter (qualifies (set sold) (now - sixty_days))
                  (take (length pre) ls @ drop (Suc (length pre)) ls)))"
proof -
  from assms have z: "gt_zero q = Inr False" by (rule gt_zero_eq_zero)
  then have "unsold_loop sold_items cutoff
           (before @ \<lparr>listing_item = i, start_date = d, available_quantity = q\<rparr> # after) acc =
         unsold_loop sold_items cutoff (before @ after) acc"
    by (simp add: unsold_loop_append split: sum.splits)
  moreover have "unsold = map listing_item
               (filter (qualifies (set sold) (now - sixty_days))
                  (take (length pre) ls @ drop (Suc (length pre)) ls))"
    if "r ''Available quantity'' = q"
      "load_listings to_datetime (Frame \<lparr>columns = cs, rows = pre @ r # post\<rparr>) = Inr ls"
      "process_ebay_data to_datetime now
         (Frame \<lparr>columns = cs, rows = pre @ r # post\<rparr>) order_file = Inr (sold, unsold)"
    for r ls sold unsold
    using unsold_without_row [where k = "length pre", OF that(3,2)] that(1) z by simp
  ultimately show ?thesis by blast
qed

theorem zero_quantity_never_unsold_witness:
  "eq_zero (PInt 0) \<and>
   unsold_loop {} (940 * one_day)
     ([] @ \<lparr>listing_item = ''300'', start_date = Some (910 * one_day),
             available_quantity = PInt 0\<rparr> # []) [] = Inr [] \<and>
   load_listings to_datetime_ns
     (Frame \<lparr>columns = expected_listing_columns,
             rows = [listing_row (PStr (str ''200'')) (PInt (910 * one_day)) (PInt 1)] @
                    listing_row (PStr (str ''300'')) (PInt (910 * one_day)) (PInt 0) # []\<rparr>) =
     Inr [\<lparr>listing_item = ''200'', start_date = Some (910 * one_day), available_quantity = PInt 1\<rparr>,
          \<lparr>listing_item = ''300'', start_date = Some (910 * one_day), available_quantity = PInt 0\<rparr>] \<and>
   process_ebay_data to_datetime_ns (1000 * one_day)
     (Frame \<lparr>columns = expected_listing_columns,
             rows = [listing_row (PStr (str ''200'')) (PInt (910 * one_day)) (PInt 1)] @
                    listing_row (PStr (str ''300'')) (PInt (910 * one_day)) (PInt 0) # []\<rparr>)
     example_orders = Inr ([''100''], [''200'']) \<and>
   [''200''] = map listing_item
     (filter (qualifies (set [''100'']) (1000 * one_day - sixty_days))
        [\<lparr>listing_item = ''200'', start_date = Some (910 * one_day), available_quantity = PInt 1\<rparr>])"
proof -
  let ?r = "listing_row (PStr (str ''300'')) (PInt (910 * one_day)) (PInt 0)"
  let ?pre = "[listing_row (PStr (str ''200'')) (PInt (910 * one_day)) (PInt 1)]"
  let ?ls = "[\<lparr>listing_item = ''200'', start_date = Some (910 * one_day), available_quantity = PInt 1\<rparr>,
          \<lparr>listing_item = ''300'', start_date = Some (910 * one_day), available_quantity = PInt 0\<rparr>]"
  have z: "eq_zero (PInt 0)" by simp
  have q: "?r ''Available quantity'' = PInt 0" by (simp add: listing_row_def)
  have load: "load_listings to_datetime_ns
     (Frame \<lparr>columns = expected_listing_columns, rows = ?pre @ ?r # []\<rparr>) = Inr ?ls"
    by code_simp
  have run: "process_ebay_data to_datetime_ns (1000 * one_day)
     (Frame \<lparr>columns = expected_listing_columns, rows = ?pre @ ?r # []\<rparr>)
     example_orders = Inr ([''100''], [''200''])"
    by code_simp
  note inst = zero_quantity_never_unsold [OF z, where sold_items = "{}" and cutoff = "940 * one_day"
      and before = "[]" and i = "''300''" and d = "Some (910 * one_day)" and after = "[]"
      and acc = "[]" and to_datetime = to_datetime_ns and now = "1000 * one_day"
      and cs = expected_listing_columns and pre = ?pre and post = "[]"
      and order_file = example_orders]
  from inst have "unsold_loop {} (940 * one_day)
     ([] @ \<lparr>listing_item = ''300'', start_date = Some (910 * one_day),
             available_quantity = PInt 0\<rparr> # []) [] = Inr []"
    by simp
  moreover from inst q load run have "[''200''] = map listing_item
     (filter (qualifies (set [''100'']) (1000 * one_day - sixty_days))
        (take (length ?pre) ?ls @ drop (Suc (length ?pre)) ?ls))"
    by blast
  ultimately show ?thesis using z load run by simp
qed

text \<open>
  Claim C8. The Unsold frame lists the item identifiers of the qualifying listing
  records in the order of the file, one entry for each qualifying record (nothing is
  sorted, nothing is removed), and the Sold frame lists every identifier of the Sold
  set exactly once.
\<close>

theorem unsold_in_file_order_sold_once:
  assumes "load_orders to_datetime order_file = Inr order_data"
    and "load_listings to_datetime listing_file = Inr listing_data"
    and "process_ebay_data to_datetime now listing_file order_file = Inr (sold, unsold)"
  shows "unsold = map listing_item
           (filter (qualifies (sold_set now order_data) (now - sixty_days)) listing_data)
       \<and> distinct sold \<and> set sold = sold_set now order_data"
proof -
  from assms have c: "classify now order_data listing_data = Inr (sold, unsold)"
    by (auto simp: process_Inr)
  from classify_Inr [OF c] show ?thesis by simp
qed


theorem unsold_in_file_order_sold_once_witness:
  "load_orders to_datetime_ns
     (order_frame [order_row (PStr (str ''100'')) (PInt (995 * one_day)),
                   order_row (PStr (str ''100.0'')) (PInt (997 * one_day))]) =
     Inr [\<lparr>order_item = ''100'', sale_date = Some (995 * one_day)\<rparr>,
          \<lparr>order_item = ''100'', sale_date = Some (997 * one_day)\<rparr>] \<and>
   load_listings to_datetime_ns
     (listing_frame [listing_row (PStr (str ''200'')) (PInt (910 * one_day)) (PInt 1),
                     listing_row (PStr (str ''100'')) (PInt (910 * one_day)) (PInt 1),
                     listing_row (PStr (str ''200'')) (PInt (900 * one_day)) (PInt 3)]) =
     Inr [\<lparr>listing_item = ''200'', start_date = Some (910 * one_day), available_quantity = PInt 1\<rparr>,
          \<lparr>listing_item = ''100'', start_date = Some (910 * one_day), available_quantity = PInt 1\<rparr>,
          \<lparr>listing_item = ''200'', start_date = Some (900 * one_day), available_quantity = PInt 3\<rparr>] \<and>
   process_ebay_data to_datetime_ns (1000 * one_day)
     (listing_frame [listing_row (PStr (str ''200'')) (PInt (910 * one_day)) (PInt 1),
                     listing_row (PStr (str ''100'')) (PInt (910 * one_day)) (PInt 1),
                     listing_row (PStr (str ''200'')) (PInt (900 * one_day)) (PInt 3)])
     (order_frame [order_row (PStr (str ''100'')) (PInt (995 * one_day)),
                   order_row (PStr (str ''100.0'')) (PInt (997 * one_day))]) =
     Inr ([''100''], [''200'', ''200'']) \<and>
   distinct [''100''] \<and>
   set [''100''] = sold_set (1000 * one_day)
     [\<lparr>order_item = ''100'', sale_date = Some (995 * one_day)\<rparr>,
      \<lparr>order_item = ''100'', sale_date = Some (997 * one_day)\<rparr>]"
proof -
  have h1: "load_orders to_datetime_ns
     (order_frame [order_row (PStr (str ''100'')) (PInt (995 * one_day)),
                   order_row (PStr (str ''100.0'')) (PInt (997 * one_day))]) =
     Inr [\<lparr>order_item = ''100'', sale_date = Some (995 * one_day)\<rparr>,
          \<lparr>order_item = ''100'', sale_date = Some (997 * one_day)\<rparr>]"
    by code_simp
  have h2: "load_listings to_datetime_ns
     (listing_frame [listing_row (PStr (str ''200'')) (PInt (910 * one_day)) (PInt 1),
                     listing_row (PStr (str ''100'')) (PInt (910 * one_day)) (PInt 1),
                     listing_row (PStr (str ''200'')) (PInt (900 * one_day)) (PInt 3)]) =
     Inr [\<lparr>listing_item = ''200'', start_date = Some (910 * one_day), available_quantity = PInt 1\<rparr>,
          \<lparr>listing_item = ''100'', start_date = Some (910 * one_day), available_quantity = PInt 1\<rparr>,
          \<lparr>listing_item = ''200'', start_date = Some (900 * one_day), available_quantity = PInt 3\<rparr>]"
    by code_simp
  have h3: "process_ebay_data to_datetime_ns (1000 * one_day)
     (listing_frame [listing_row (PStr (str ''200'')) (PInt (910 * one_day)) (PInt 1),
                     listing_row (PStr (str ''100'')) (PInt (910 * one_day)) (PInt 1),
                     listing_row (PStr (str ''200'')) (PInt (900 * one_day)) (PInt 3)])
     (order_frame [order_row (PStr (str ''100'')) (PInt (995 * one_day)),
                   order_row (PStr (str ''100.0'')) (PInt (997 * one_day))]) =
     Inr ([''100''], [''200'', ''200''])"
    by code_simp
  from unsold_in_file_order_sold_once [OF h1 h2 h3] h1 h2 h3 show ?thesis by blast
qed

text \<open>
  Claim C6. An order row whose sale date does not parse is dropped before
  classification and is no error: once the order file is read and its two columns
  are normalised, the order data are the records of the other rows that have a
  date, in the order of the file; the Sold frame of a run is the Sold set of the
  other rows' records; and whether loading the order file fails, and how, does not
  depend on the date parser at all.
\<close>

theorem unparseable_sale_date_dropped:
  assumes "to_datetime (column ''Sale date'' (pre @ r # post)) (r ''Sale date'') = None"
    and "order_records to_datetime (Frame \<lparr>columns = cs, rows = pre @ r # post\<rparr>) = Inr all"
  shows "load_orders to_datetime (Frame \<lparr>columns = cs, rows = pre @ r # post\<rparr>) =
           Inr (dropna (take (length pre) all @ drop (Suc (length pre)) all))
       \<and> (\<forall>sold unsold.
             process_ebay_data to_datetime now listing_file
               (Frame \<lparr>columns = cs, rows = pre @ r # post\<rparr>) = Inr (sold, unsold) \<longrightarrow>
             set sold = sold_set now (take (length pre) all @ drop (Suc (length pre)) all))
       \<and> (load_orders to_datetime order_file = Inl e \<longleftrightarrow>
            load_orders other_parser order_file = Inl e)"
proof -
  let ?file = "Frame \<lparr>columns = cs, rows = pre @ r # post\<rparr>"
  let ?rest = "take (length pre) all @ drop (Suc (length pre)) all"
  from order_records_nth(1) [OF assms(2)]
    order_records_nth(2) [where k = "length pre", OF assms(2)] assms(1)
  have k: "length pre < length all" and nat: "sale_date (all ! length pre) = None"
    by auto
  from filter_without_nth [where P = "\<lambda>x. sale_date x \<noteq> None", OF k] nat
  have dropped: "dropna all = dropna ?rest"
    by (simp add: dropna_def)
  with assms(2) have load: "load_orders to_datetime ?file = Inr (dropna ?rest)"
    by (simp add: load_orders_def)
  have "set sold = sold_set now ?rest"
    if "process_ebay_data to_datetime now listing_file ?file = Inr (sold, unsold)"
    for sold unsold
  proof -
    from that load obtain ls where "classify now (dropna ?rest) ls = Inr (sold, unsold)"
      by (auto simp: process_Inr)
    from classify_Inr(2) [OF this] show ?thesis by (simp add: sold_set_dropna)
  qed
  with load load_orders_fail_any_parser [of to_datetime order_file e other_parser]
  show ?thesis by blast
qed

theorem unparseable_sale_date_dropped_witness:
  "to_datetime_ns
     (column ''Sale date''
        ([order_row (PStr (str ''100'')) (PInt (995 * one_day))] @
         order_row (PStr (str ''300'')) (PStr (str ''soon'')) #
         [order_row (PStr (str ''400'')) (PInt (996 * one_day))]))
     (order_row (PStr (str ''300'')) (PStr (str ''soon'')) ''Sale date'') = None \<and>
   order_records to_datetime_ns
     (Frame \<lparr>columns = expected_order_columns,
             rows = [order_row (PStr (str ''100'')) (PInt (995 * one_day))] @
                    order_row (PStr (str ''300'')) (PStr (str ''soon'')) #
                    [order_row (PStr (str ''400'')) (PInt (996 * one_day))]\<rparr>) =
     Inr [\<lparr>order_item = ''100'', sale_date = Some (995 * one_day)\<rparr>,
          \<lparr>order_item = ''300'', sale_date = None\<rparr>,
          \<lparr>order_item = ''400'', sale_date = Some (996 * one_day)\<rparr>] \<and>
   load_orders to_datetime_ns
     (Frame \<lparr>columns = expected_order_columns,
             rows = [order_row (PStr (str ''100'')) (PInt (995 * one_day))] @
                    order_row (PStr (str ''300'')) (PStr (str ''soon'')) #
                    [order_row (PStr (str ''400'')) (PInt (996 * one_day))]\<rparr>) =
     Inr [\<lparr>order_item = ''100'', sale_date = Some (995 * one_day)\<rparr>,
          \<lparr>order_item = ''400'', sale_date = Some (996 * one_day)\<rparr>] \<and>
   process_ebay_data to_datetime_ns (1000 * one_day) example_listings
     (Frame \<lparr>columns = expected_order_columns,
             rows = [order_row (PStr (str ''100'')) (PInt (995 * one_day))] @
                    order_row (PStr (str ''300'')) (PStr (str ''soon'')) #
                    [order_row (PStr (str ''400'')) (PInt (996 * one_day))]\<rparr>) =
     Inr ([''100'', ''400''], [''200'']) \<and>
   set [''100'', ''400''] = sold_set (1000 * one_day)
     [\<lparr>order_item = ''100'', sale_date = Some (995 * one_day)\<rparr>,
      \<lparr>order_item = ''400'', sale_date = Some (996 * one_day)\<rparr>]"
proof -
  let ?pre = "[order_row (PStr (str ''100'')) (PInt (995 * one_day))]"
  let ?r = "order_row (PStr (str ''300'')) (PStr (str ''soon''))"
  let ?post = "[order_row (PStr (str ''400'')) (PInt (996 * one_day))]"
  let ?all = "[\<lparr>order_item = ''100'', sale_date = Some (995 * one_day)\<rparr>,
          \<lparr>order_item = ''300'', sale_date = None\<rparr>,
          \<lparr>order_item = ''400'', sale_date = Some (996 * one_day)\<rparr>]"
  have d: "to_datetime_ns (column ''Sale date'' (?pre @ ?r # ?post)) (?r ''Sale date'') = None"
    by (simp add: to_datetime_ns_def order_row_def)
  have recs: "order_records to_datetime_ns
     (Frame \<lparr>columns = expected_order_columns, rows = ?pre @ ?r # ?post\<rparr>) = Inr ?all"
    by code_simp
  have rest: "dropna (take (length ?pre) ?all @ drop (Suc (length ?pre)) ?all) =
     [\<lparr>order_item = ''100'', sale_date = Some (995 * one_day)\<rparr>,
      \<lparr>order_item = ''400'', sale_date = Some (996 * one_day)\<rparr>]"
    by (simp add: dropna_def)
  have rest': "take (length ?pre) ?all @ drop (Suc (length ?pre)) ?all =
     [\<lparr>order_item = ''100'', sale_date = Some (995 * one_day)\<rparr>,
      \<lparr>order_item = ''400'', sale_date = Some (996 * one_day)\<rparr>]"
    by simp
  have run: "process_ebay_data to_datetime_ns (1000 * one_day) example_listings
     (Frame \<lparr>columns = expected_order_columns, rows = ?pre @ ?r # ?post\<rparr>) =
     Inr ([''100'', ''400''], [''200''])"
    by code_simp
  note inst = unparseable_sale_date_dropped [where to_datetime = to_datetime_ns and r = ?r
      and pre = ?pre and post = ?post and cs = expected_order_columns and all = ?all
      and now = "1000 * one_day" and listing_file = example_listings, OF d recs]
  from inst have "load_orders to_datetime_ns
     (Frame \<lparr>columns = expected_order_columns, rows = ?pre @ ?r # ?post\<rparr>) =
     Inr (dropna (take (length ?pre) ?all @ drop (Suc (length ?pre)) ?all))"
    by blast
  moreover from inst run have "set [''100'', ''400''] =
      sold_set (1000 * one_day) (take (length ?pre) ?all @ drop (Suc (length ?pre)) ?all)"
    by blast
  ultimately show ?thesis using rest rest' d recs run by simp
qed

text \<open>
  Claim C9. A listing row whose start date does not parse is never emitted to the
  Unsold sequence, and the missing date raises nothing: its comparison with the
  cutoff is false, so the loop does with the row exactly what it does with the row
  given any date that is not before the cutoff, and in a run that returns its frames
  the Unsold frame is made from the records of the other rows alone.
\<close>

theorem unparseable_start_date_not_unsold:
  "(start_date l = None \<and> cutoff \<le> d \<longrightarrow>
      unsold_loop sold_items cutoff (before @ l # after) acc =
      unsold_loop sold_items cutoff (before @ l\<lparr>start_date := Some d\<rparr> # after) acc)
   \<and> (to_datetime (column ''Start date'' (pre @ r # post)) (r ''Start date'') = None \<and>
       load_listings to_datetime (Frame \<lparr>columns = cs, rows = pre @ r # post\<rparr>) = Inr ls \<and>
       process_ebay_data to_datetime now
         (Frame \<lparr>columns = cs, rows = pre @ r # post\<rparr>) order_file = Inr (sold, unsold) \<longrightarrow>
       unsold = map listing_item
         (filter (qualifies (set sold) (now - sixty_days))
            (take (length pre) ls @ drop (Suc (length pre)) ls)))"
proof -
  have "unsold_loop sold_items cutoff (before @ l # after) acc =
      unsold_loop sold_items cutoff (before @ l\<lparr>start_date := Some d\<rparr> # after) acc"
    if "start_date l = None" "cutoff \<le> d"
    using that by (intro unsold_loop_cong_row) auto
  moreover have "unsold = map listing_item
         (filter (qualifies (set sold) (now - sixty_days))
            (take (length pre) ls @ drop (Suc (length pre)) ls))"
    if "to_datetime (column ''Start date'' (pre @ r # post)) (r ''Start date'') = None"
      "load_listings to_datetime (Frame \<lparr>columns = cs, rows = pre @ r # post\<rparr>) = Inr ls"
      "process_ebay_data to_datetime now
         (Frame \<lparr>columns = cs, rows = pre @ r # post\<rparr>) order_file = Inr (sold, unsold)"
    using unsold_without_row [where k = "length pre", OF that(3,2)] that(1) by simp
  ultimately show ?thesis by blast
qed

theorem unparseable_start_date_not_unsold_witness:
  "unsold_loop {} (940 * one_day)
     ([] @ \<lparr>listing_item = ''300'', start_date = None, available_quantity = PInt 1\<rparr> # []) [] =
   unsold_loop {} (940 * one_day)
     ([] @ \<lparr>listing_item = ''300'', start_date = None, available_quantity = PInt 1\<rparr>
             \<lparr>start_date := Some (940 * one_day)\<rparr> # []) [] \<and>
   to_datetime_ns
     (column ''Start date''
        ([listing_row (PStr (str ''200'')) (PInt (910 * one_day)) (PInt 1)] @
         listing_row (PStr (str ''300'')) (PStr (str ''n/a'')) (PInt 1) # []))
     (listing_row (PStr (str ''300'')) (PStr (str ''n/a'')) (PInt 1) ''Start date'') = None \<and>
   load_listings to_datetime_ns
     (Frame \<lparr>columns = expected_listing_columns,
             rows = [listing_row (PStr (str ''200'')) (PInt (910 * one_day)) (PInt 1)] @
                    listing_row (PStr (str ''300'')) (PStr (str ''n/a'')) (PInt 1) # []\<rparr>) =
     Inr [\<lparr>listing_item = ''200'', start_date = Some (910 * one_day), available_quantity = PInt 1\<rparr>,
          \<lparr>listing_item = ''300'', start_date = None, available_quantity = PInt 1\<rparr>] \<and>
   process_ebay_data to_datetime_ns (1000 * one_day)
     (Frame \<lparr>columns = expected_listing_columns,
             rows = [listing_row (PStr (str ''200'')) (PInt (910 * one_day)) (PInt 1)] @
                    listing_row (PStr (str ''300'')) (PStr (str ''n/a'')) (PInt 1) # []\<rparr>)
     example_orders = Inr ([''100''], [''200'']) \<and>
   [''200''] = map listing_item
     (filter (qualifies (set [''100'']) (1000 * one_day - sixty_days))
        [\<lparr>listing_item = ''200'', start_date = Some (910 * one_day), available_quantity = PInt 1\<rparr>])"
proof -
  let ?r = "listing_row (PStr (str ''300'')) (PStr (str ''n/a'')) (PInt 1)"
  let ?pre = "[listing_row (PStr (str ''200'')) (PInt (910 * one_day)) (PInt 1)]"
  let ?l = "\<lparr>listing_item = ''300'', start_date = None, available_quantity = PInt 1\<rparr>"
  let ?ls = "[\<lparr>listing_item = ''200'', start_date = Some (910 * one_day), available_quantity = PInt 1\<rparr>,
          \<lparr>listing_item = ''300'', start_date = None, available_quantity = PInt 1\<rparr>]"
  have d: "to_datetime_ns (column ''Start date'' (?pre @ ?r # [])) (?r ''Start date'') = None"
    by (simp add: to_datetime_ns_def listing_row_def)
  have load: "load_listings to_datetime_ns
     (Frame \<lparr>columns = expected_listing_columns, rows = ?pre @ ?r # []\<rparr>) = Inr ?ls"
    by code_simp
  have run: "process_ebay_data to_datetime_ns (1000 * one_day)
     (Frame \<lparr>columns = expected_listing_columns, rows = ?pre @ ?r # []\<rparr>)
     example_orders = Inr ([''100''], [''200''])"
    by code_simp
  note inst = unparseable_start_date_not_unsold [where l = ?l and cutoff = "940 * one_day"
      and d = "940 * one_day" and sold_items = "{}" and before = "[]" and after = "[]"
      and acc = "[]" and to_datetime = to_datetime_ns and pre = ?pre and r = ?r and post = "[]"
      and cs = expected_listing_columns and ls = ?ls and now = "1000 * one_day"
      and order_file = example_orders and sold = "[''100'']" and unsold = "[''200'']"]
  from inst have loop: "unsold_loop {} (940 * one_day) ([] @ ?l # []) [] =
      unsold_loop {} (940 * one_day) ([] @ ?l\<lparr>start_date := Some (940 * one_day)\<rparr> # []) []"
    by simp
  from inst d load run have "[''200''] = map listing_item
     (filter (qualifies (set [''100'']) (1000 * one_day - sixty_days))
        (take (length ?pre) ?ls @ drop (Suc (length ?pre)) ?ls))"
    by blast
  with loop d load run show ?thesis by simp
qed

text \<open>
  Claim C7. Pressing the button leaves the stored frames as they were when the
  processing step fails, by a reported error or by an exception; when it succeeds
  the stored frames are exactly the new ones, whatever was stored before. So after
  any sequence of presses the session holds the frames of the last press that
  succeeded, and nothing of the presses before it.
\<close>

theorem run_replaces_or_keeps_results:
  "(\<forall>f. process_ebay_data to_datetime now listing_file order_file = Inl f \<longrightarrow>
        process_data_button to_datetime now listing_file order_file st = st)
   \<and> (\<forall>sold unsold.
        process_ebay_data to_datetime now listing_file order_file = Inr (sold, unsold) \<longrightarrow>
        process_data_button to_datetime now listing_file order_file st =
          \<lparr>sold_df = Some sold, unsold_df = Some unsold\<rparr> \<and>
        (list_all failed later \<longrightarrow>
           press_all (earlier @ (to_datetime, now, listing_file, order_file) # later) st =
             \<lparr>sold_df = Some sold, unsold_df = Some unsold\<rparr>))
   \<and> (list_all failed later \<longrightarrow> press_all later st = st)"
  by (auto simp: button_failed button_succeeded press_all_append press_all_failed)

theorem run_replaces_or_keeps_results_witness:
  "process_data_button to_datetime_ns (1000 * one_day) example_listings example_orders
     initial_state = \<lparr>sold_df = Some [''100''], unsold_df = Some [''200'']\<rparr> \<and>
   process_data_button to_datetime_ns (1001 * one_day) example_listings
     (Frame \<lparr>columns = [''Item number''], rows = []\<rparr>)
     \<lparr>sold_df = Some [''100''], unsold_df = Some [''200'']\<rparr> =
     \<lparr>sold_df = Some [''100''], unsold_df = Some [''200'']\<rparr> \<and>
   process_data_button to_datetime_ns (1001 * one_day) example_listings
     (order_frame [order_row (PStr (str ''abc'')) (PInt (995 * one_day))])
     \<lparr>sold_df = Some [''100''], unsold_df = Some [''200'']\<rparr> =
     \<lparr>sold_df = Some [''100''], unsold_df = Some [''200'']\<rparr> \<and>
   process_data_button to_datetime_ns (1001 * one_day) (listing_frame []) (order_frame [])
     \<lparr>sold_df = Some [''100''], unsold_df = Some [''200'']\<rparr> =
     \<lparr>sold_df = Some [], unsold_df = Some []\<rparr> \<and>
   press_all
     ([(to_datetime_ns, 1000 * one_day, example_listings, example_orders)] @
      (to_datetime_ns, 1001 * one_day, listing_frame [], order_frame []) #
      [(to_datetime_ns, 1002 * one_day, example_listings,
        Frame \<lparr>columns = [''Item number''], rows = []\<rparr>),
       (to_datetime_ns, 1003 * one_day, example_listings,
        order_frame [order_row (PStr (str ''abc'')) (PInt (995 * one_day))])])
     initial_state = \<lparr>sold_df = Some [], unsold_df = Some []\<rparr>"
proof -
  have r1: "process_ebay_data to_datetime_ns (1000 * one_day) example_listings example_orders =
      Inr ([''100''], [''200''])"
    by code_simp
  have r2: "process_ebay_data to_datetime_ns (1001 * one_day) example_listings
      (Frame \<lparr>columns = [''Item number''], rows = []\<rparr>) =
      Inl (Reported ''Missing expected columns: Sale date'')"
    by code_simp
  have r3: "process_ebay_data to_datetime_ns (1001 * one_day) example_listings
      (order_frame [order_row (PStr (str ''abc'')) (PInt (995 * one_day))]) = Inl (Raised ValueError)"
    by code_simp
  have r4: "process_ebay_data to_datetime_ns (1001 * one_day) (listing_frame []) (order_frame []) =
      Inr ([], [])"
    by code_simp
  from run_replaces_or_keeps_results [of to_datetime_ns "1000 * one_day" example_listings
      example_orders initial_state] r1
  have s1: "process_data_button to_datetime_ns (1000 * one_day) example_listings example_orders
     initial_state = \<lparr>sold_df = Some [''100''], unsold_df = Some [''200'']\<rparr>"
    by blast
  from run_replaces_or_keeps_results [of to_datetime_ns "1001 * one_day" example_listings
      "Frame \<lparr>columns = [''Item number''], rows = []\<rparr>"
      "\<lparr>sold_df = Some [''100''], unsold_df = Some [''200'']\<rparr>"] r2
  have s2: "process_data_button to_datetime_ns (1001 * one_day) example_listings
     (Frame \<lparr>columns = [''Item number''], rows = []\<rparr>)
     \<lparr>sold_df = Some [''100''], unsold_df = Some [''200'']\<rparr> =
     \<lparr>sold_df = Some [''100''], unsold_df = Some [''200'']\<rparr>"
    by blast
  from run_replaces_or_keeps_results [of to_datetime_ns "1001 * one_day" example_listings
      "order_frame [order_row (PStr (str ''abc'')) (PInt (995 * one_day))]"
      "\<lparr>sold_df = Some [''100''], unsold_df = Some [''200'']\<rparr>"] r3
  have s3: "process_data_button to_datetime_ns (1001 * one_day) example_listings
     (order_frame [order_row (PStr (str ''abc'')) (PInt (995 * one_day))])
     \<lparr>sold_df = Some [''100''], unsold_df = Some [''200'']\<rparr> =
     \<lparr>sold_df = Some [''100''], unsold_df = Some [''200'']\<rparr>"
    by blast
  from run_replaces_or_keeps_results [of to_datetime_ns "1001 * one_day" "listing_frame []"
      "order_frame []" "\<lparr>sold_df = Some [''100''], unsold_df = Some [''200'']\<rparr>"] r4
  have s4: "process_data_button to_datetime_ns (1001 * one_day) (listing_frame []) (order_frame [])
     \<lparr>sold_df = Some [''100''], unsold_df = Some [''200'']\<rparr> =
     \<lparr>sold_df = Some [], unsold_df = Some []\<rparr>"
    by blast
  have later: "list_all failed
      [(to_datetime_ns, 1002 * one_day, example_listings,
        Frame \<lparr>columns = [''Item number''], rows = []\<rparr>),
       (to_datetime_ns, 1003 * one_day, example_listings,
        order_frame [order_row (PStr (str ''abc'')) (PInt (995 * one_day))])]"
    by code_simp
  from run_replaces_or_keeps_results [where to_datetime = to_datetime_ns
      and now = "1001 * one_day" and listing_file = "listing_frame []"
      and order_file = "order_frame []" and st = initial_state
      and earlier = "[(to_datetime_ns, 1000 * one_day, example_listings, example_orders)]"
      and later = "[(to_datetime_ns, 1002 * one_day, example_listings,
        Frame \<lparr>columns = [''Item number''], rows = []\<rparr>),
       (to_datetime_ns, 1003 * one_day, example_listings,
        order_frame [order_row (PStr (str ''abc'')) (PInt (995 * one_day))])]"] r4 later
  have s5: "press_all
     ([(to_datetime_ns, 1000 * one_day, example_listings, example_orders)] @
      (to_datetime_ns, 1001 * one_day, listing_frame [], order_frame []) #
      [(to_datetime_ns, 1002 * one_day, example_listings,
        Frame \<lparr>columns = [''Item number''], rows = []\<rparr>),
       (to_datetime_ns, 1003 * one_day, example_listings,
        order_frame [order_row (PStr (str ''abc'')) (PInt (995 * one_day))])])
     initial_state = \<lparr>sold_df = Some [], unsold_df = Some []\<rparr>"
    by blast
  from s1 s2 s3 s4 s5 show ?thesis by blast
qed

text \<open>
  Claim C3, as amended. Normalisation maps \<^verbatim>\<open>"123456789.0"\<close> to \<^verbatim>\<open>"123456789"\<close>, and
  the empty string and \<^verbatim>\<open>None\<close> to the empty string. Every non-empty string that
  \<^verbatim>\<open>float\<close> reads as a finite number is reformatted as an integer string with no
  decimal point: it denotes the integer nearest to the number, the even one when the
  number lies halfway between two integers, and it starts with a minus sign exactly
  when the number is negative or minus zero. A string that \<^verbatim>\<open>float\<close> reads as an
  infinity or as not-a-number comes back as \<^verbatim>\<open>inf\<close>, \<^verbatim>\<open>-inf\<close> or \<^verbatim>\<open>nan\<close>.
\<close>

theorem format_item_number_cases:
  "format_item_number (PStr (str ''123456789.0'')) = Inr ''123456789''
   \<and> format_item_number (PStr []) = Inr []
   \<and> format_item_number PNone = Inr []
   \<and> (\<forall>s neg m t. s \<noteq> [] \<and> float_of_string s = Inr (Finite neg m t) \<longrightarrow>
         (\<exists>out N. format_item_number (PStr s) = Inr out \<and> is_integer_string out \<and>
            int_of_string out = Some (if neg then - int N else int N) \<and>
            (hd out = CHR ''-'' \<longleftrightarrow> neg) \<and> is_nearest_even N m t))
   \<and> (\<forall>s neg. s \<noteq> [] \<and> float_of_string s = Inr (Infinity neg) \<longrightarrow>
         format_item_number (PStr s) = Inr (if neg then ''-inf'' else ''inf''))
   \<and> (\<forall>s. s \<noteq> [] \<and> float_of_string s = Inr NaN \<longrightarrow>
         format_item_number (PStr s) = Inr ''nan'')"
proof -
  have finite: "\<exists>out N. format_item_number (PStr s) = Inr out \<and> is_integer_string out \<and>
            int_of_string out = Some (if neg then - int N else int N) \<and>
            (hd out = CHR ''-'' \<longleftrightarrow> neg) \<and> is_nearest_even N m t"
    if "s \<noteq> []" "float_of_string s = Inr (Finite neg m t)" for s neg m t
  proof -
    let ?N = "if 0 \<le> t then m * 2 ^ nat t else round_half_even m (2 ^ nat (- t))"
    from that have "format_item_number (PStr s) = Inr (format_0f (Finite neg m t))"
      by (simp add: format_item_number_def)
    moreover have "is_integer_string (format_0f (Finite neg m t))"
      by (rule integer_string_format_0f)
    moreover have "int_of_string (format_0f (Finite neg m t)) =
        Some (if neg then - int ?N else int ?N)"
      by (rule int_of_string_format_0f)
    moreover have "hd (format_0f (Finite neg m t)) = CHR ''-'' \<longleftrightarrow> neg"
      by (rule sign_format_0f)
    moreover have "is_nearest_even ?N m t"
      by (rule nearest_format)
    ultimately show ?thesis by blast
  qed
  have "format_item_number (PStr []) = Inr []" "format_item_number PNone = Inr []"
    by (simp_all add: format_item_number_def)
  moreover have "format_item_number (PStr s) = Inr (if neg then ''-inf'' else ''inf'')"
    if "s \<noteq> []" "float_of_string s = Inr (Infinity neg)" for s neg
    using that by (simp add: format_item_number_def)
  moreover have "format_item_number (PStr s) = Inr ''nan''"
    if "s \<noteq> []" "float_of_string s = Inr NaN" for s
    using that by (simp add: format_item_number_def)
  ultimately show ?thesis using format_sample finite by blast
qed

text \<open>
  The claim as it was stated fails on the string \<^verbatim>\<open>"inf"\<close>: it is not empty, and
  what comes back is no integer string.
\<close>

theorem format_item_number_cases_counterexample:
  "format_item_number (PStr (str ''inf'')) = Inr ''inf'' \<and> \<not> is_integer_string ''inf''"
  by code_simp

text \<open>
  Two instances. A no-break space, the Arabic-Indic digit two and \<^verbatim>\<open>.5\<close> are read as
  2.5, and the tie goes down to 2; \<^verbatim>\<open>-3.5\<close> is a tie that goes away from zero, to -4.
\<close>

theorem format_item_number_cases_witness:
  "[160, 1634] @ str ''.5'' \<noteq> [] \<and>
   float_of_string ([160, 1634] @ str ''.5'') =
     Inr (Finite False 5629499534213120 (- 51)) \<and>
   (\<exists>out N. format_item_number (PStr ([160, 1634] @ str ''.5'')) = Inr out \<and>
      is_integer_string out \<and> int_of_string out = Some (int N) \<and>
      hd out \<noteq> CHR ''-'' \<and> is_nearest_even N 5629499534213120 (- 51)) \<and>
   format_item_number (PStr ([160, 1634] @ str ''.5'')) = Inr ''2'' \<and>
   str ''-3.5'' \<noteq> [] \<and>
   float_of_string (str ''-3.5'') = Inr (Finite True 7881299347898368 (- 51)) \<and>
   (\<exists>out N. format_item_number (PStr (str ''-3.5'')) = Inr out \<and>
      is_integer_string out \<and> int_of_string out = Some (- int N) \<and>
      hd out = CHR ''-'' \<and> is_nearest_even N 7881299347898368 (- 51)) \<and>
   format_item_number (PStr (str ''-3.5'')) = Inr ''-4'' \<and>
   is_nearest_even 2 5629499534213120 (- 51) \<and>
   \<not> is_nearest_even 3 5629499534213120 (- 51) \<and>
   is_nearest_even 4 7881299347898368 (- 51) \<and>
   \<not> is_nearest_even 3 7881299347898368 (- 51)"
proof -
  have ne: "[160, 1634] @ str ''.5'' \<noteq> []" "str ''-3.5'' \<noteq> []"
    by (simp_all add: str_def)
  have h1: "float_of_string ([160, 1634] @ str ''.5'') =
      Inr (Finite False 5629499534213120 (- 51))"
    by code_simp
  have h2: "float_of_string (str ''-3.5'') = Inr (Finite True 7881299347898368 (- 51))"
    by code_simp
  have f1: "format_item_number (PStr ([160, 1634] @ str ''.5'')) = Inr ''2''"
    by code_simp
  have f2: "format_item_number (PStr (str ''-3.5'')) = Inr ''-4''"
    by code_simp
  have n: "is_nearest_even 2 5629499534213120 (- 51)"
    "\<not> is_nearest_even 3 5629499534213120 (- 51)"
    "is_nearest_even 4 7881299347898368 (- 51)"
    "\<not> is_nearest_even 3 7881299347898368 (- 51)"
    by (simp_all add: is_nearest_even_def)
  from format_item_number_cases ne(1) h1
  have "\<exists>out N. format_item_number (PStr ([160, 1634] @ str ''.5'')) = Inr out \<and>
      is_integer_string out \<and>
      int_of_string out = Some (if False then - int N else int N) \<and>
      (hd out = CHR ''-'' \<longleftrightarrow> False) \<and> is_nearest_even N 5629499534213120 (- 51)"
    by blast
  then have g1: "\<exists>out N. format_item_number (PStr ([160, 1634] @ str ''.5'')) = Inr out \<and>
      is_integer_string out \<and> int_of_string out = Some (int N) \<and>
      hd out \<noteq> CHR ''-'' \<and> is_nearest_even N 5629499534213120 (- 51)"
    by auto
  from format_item_number_cases ne(2) h2
  have "\<exists>out N. format_item_number (PStr (str ''-3.5'')) = Inr out \<and>
      is_integer_string out \<and>
      int_of_string out = Some (if True then - int N else int N) \<and>
      (hd out = CHR ''-'' \<longleftrightarrow> True) \<and> is_nearest_even N 7881299347898368 (- 51)"
    by blast
  then have g2: "\<exists>out N. format_item_number (PStr (str ''-3.5'')) = Inr out \<and>
      is_integer_string out \<and> int_of_string out = Some (- int N) \<and>
      hd out = CHR ''-'' \<and> is_nearest_even N 7881299347898368 (- 51)"
    by auto
  from ne h1 h2 f1 f2 n g1 g2 show ?thesis by blast
qed

text \<open>
  Claim C4, as amended. When a required column is absent from the order file, the run
  shows the message that names the missing columns and returns no frames. When one
  is absent from the listing file, the run does the same provided the order file was
  loaded and its item numbers normalised, which happens first; and in no case does
  such a run return frames.
\<close>

theorem missing_column_reported:
  "(filter (\<lambda>col. col \<notin> set ocs) expected_order_columns \<noteq> [] \<longrightarrow>
      process_ebay_data to_datetime now listing_file (Frame \<lparr>columns = ocs, rows = ors\<rparr>) =
        Inl (Reported (''Missing expected columns: '' @
               join '', '' (filter (\<lambda>col. col \<notin> set ocs) expected_order_columns))))
   \<and> (filter (\<lambda>col. col \<notin> set lcs) expected_listing_columns \<noteq> [] \<longrightarrow>
        (\<forall>order_data. load_orders to_datetime order_file = Inr order_data \<longrightarrow>
           process_ebay_data to_datetime now (Frame \<lparr>columns = lcs, rows = lrs\<rparr>) order_file =
             Inl (Reported (''Missing expected columns: '' @
                    join '', '' (filter (\<lambda>col. col \<notin> set lcs) expected_listing_columns))))
        \<and> (\<forall>res. process_ebay_data to_datetime now
                     (Frame \<lparr>columns = lcs, rows = lrs\<rparr>) order_file \<noteq> Inr res))"
  by (auto simp: process_ebay_data_def load_orders_def order_records_rows load_listings_rows
      split: sum.splits)

theorem missing_column_reported_witness:
  "process_ebay_data to_datetime_ns (1000 * one_day) example_listings
     (Frame \<lparr>columns = [''Item number'', ''Order number''], rows = []\<rparr>) =
     Inl (Reported ''Missing expected columns: Sale date'') \<and>
   process_ebay_data to_datetime_ns (1000 * one_day)
     (Frame \<lparr>columns = [''Item number''], rows = []\<rparr>) example_orders =
     Inl (Reported ''Missing expected columns: Start date, Available quantity'')"
proof -
  have o: "filter (\<lambda>col. col \<notin> set [''Item number'', ''Order number'']) expected_order_columns =
      [''Sale date'']"
    by (simp add: expected_order_columns_def)
  have l: "filter (\<lambda>col. col \<notin> set [''Item number'']) expected_listing_columns =
      [''Start date'', ''Available quantity'']"
    by (simp add: expected_listing_columns_def)
  have lo: "load_orders to_datetime_ns example_orders =
      Inr [\<lparr>order_item = ''100'', sale_date = Some (1000 * one_day - 5 * one_day)\<rparr>]"
    by code_simp
  from missing_column_reported [of "[''Item number'', ''Order number'']" to_datetime_ns
      "1000 * one_day" example_listings "[]" "[''Item number'']" example_orders "[]"] o l lo
  show ?thesis by simp
qed

text \<open>
  The claim as it was stated fails when the listing file lacks a column and the
  order file holds an item number that is no number: the exception of line 30 comes
  before the listing file is read, and no message names the missing column.
\<close>

theorem missing_column_reported_counterexample:
  "process_ebay_data to_datetime_ns (1000 * one_day)
     (Frame \<lparr>columns = [''Item number'', ''Available quantity''], rows = []\<rparr>)
     (order_frame [order_row (PStr (str ''abc'')) (PInt (995 * one_day))]) = Inl (Raised ValueError)"
  by code_simp




text \<open>
  Claim C2, as amended. With the cutoff 60 days before now, an identifier is in the
  Sold frame exactly when an order record has it with a sale date strictly after
  the cutoff: a sale one second after the cutoff (60 days less one second before
  now) is included, a sale exactly 60 days before now is excluded, and so is a sale
  60 days and one second before now. Every identifier of the Unsold frame comes from
  a listing record that started strictly before the cutoff: a listing started at the
  cutoff is excluded, one started a second earlier is included.
\<close>

theorem cutoff_is_strict:
  assumes "load_orders to_datetime order_file = Inr order_data"
    and "load_listings to_datetime listing_file = Inr listing_data"
    and "process_ebay_data to_datetime now listing_file order_file = Inr (sold, unsold)"
  shows "(\<forall>i. i \<in> set sold \<longleftrightarrow>
            (\<exists>r\<in>set order_data. order_item r = i \<and>
               (\<exists>d. sale_date r = Some d \<and> now - sixty_days < d)))
       \<and> (\<forall>i\<in>set unsold. \<exists>r\<in>set listing_data. listing_item r = i \<and>
               (\<exists>d. start_date r = Some d \<and> d < now - sixty_days))
       \<and> classify now [\<lparr>order_item = i, sale_date = Some (now - sixty_days + one_second)\<rparr>] [] =
           Inr ([i], [])
       \<and> classify now [\<lparr>order_item = i, sale_date = Some (now - sixty_days)\<rparr>] [] =
           Inr ([], [])
       \<and> classify now [\<lparr>order_item = i, sale_date = Some (now - sixty_days - one_second)\<rparr>] [] =
           Inr ([], [])
       \<and> classify now []
           [\<lparr>listing_item = i, start_date = Some (now - sixty_days), available_quantity = PInt 1\<rparr>] =
           Inr ([], [])
       \<and> classify now []
           [\<lparr>listing_item = i, start_date = Some (now - sixty_days - one_second),
             available_quantity = PInt 1\<rparr>] =
           Inr ([], [i])"
proof -
  from assms have c: "classify now order_data listing_data = Inr (sold, unsold)"
    by (auto simp: process_Inr)
  from classify_Inr(2) [OF c]
  have sold: "\<forall>i. i \<in> set sold \<longleftrightarrow>
            (\<exists>r\<in>set order_data. order_item r = i \<and>
               (\<exists>d. sale_date r = Some d \<and> now - sixty_days < d))"
    by (auto simp: sold_set_def)
  from classify_Inr(3) [OF c]
  have unsold: "\<forall>i\<in>set unsold. \<exists>r\<in>set listing_data. listing_item r = i \<and>
               (\<exists>d. start_date r = Some d \<and> d < now - sixty_days)"
    by (auto simp: qualifies_def earlier_than_iff)
  have edge: "classify now [\<lparr>order_item = i, sale_date = Some (now - sixty_days + one_second)\<rparr>] [] =
           Inr ([i], [])"
    "classify now [\<lparr>order_item = i, sale_date = Some (now - sixty_days)\<rparr>] [] = Inr ([], [])"
    "classify now [\<lparr>order_item = i, sale_date = Some (now - sixty_days - one_second)\<rparr>] [] =
           Inr ([], [])"
    "classify now []
           [\<lparr>listing_item = i, start_date = Some (now - sixty_days), available_quantity = PInt 1\<rparr>] =
           Inr ([], [])"
    "classify now []
           [\<lparr>listing_item = i, start_date = Some (now - sixty_days - one_second),
             available_quantity = PInt 1\<rparr>] =
           Inr ([], [i])"
    by (simp_all add: classify_def one_second_def)
  from sold unsold edge show ?thesis by blast
qed

theorem cutoff_is_strict_witness:
  "load_orders to_datetime_ns
     (order_frame [order_row (PStr (str ''100'')) (PInt (1000 * one_day - sixty_days + one_second)),
                   order_row (PStr (str ''101'')) (PInt (1000 * one_day - sixty_days))]) =
     Inr [\<lparr>order_item = ''100'', sale_date = Some (1000 * one_day - sixty_days + one_second)\<rparr>,
          \<lparr>order_item = ''101'', sale_date = Some (1000 * one_day - sixty_days)\<rparr>] \<and>
   load_listings to_datetime_ns
     (listing_frame [listing_row (PStr (str ''200'')) (PInt (1000 * one_day - sixty_days)) (PInt 1),
                     listing_row (PStr (str ''201'')) (PInt (1000 * one_day - sixty_days - one_second)) (PInt 1)]) =
     Inr [\<lparr>listing_item = ''200'', start_date = Some (1000 * one_day - sixty_days),
            available_quantity = PInt 1\<rparr>,
          \<lparr>listing_item = ''201'', start_date = Some (1000 * one_day - sixty_days - one_second),
            available_quantity = PInt 1\<rparr>] \<and>
   process_ebay_data to_datetime_ns (1000 * one_day)
     (listing_frame [listing_row (PStr (str ''200'')) (PInt (1000 * one_day - sixty_days)) (PInt 1),
                     listing_row (PStr (str ''201'')) (PInt (1000 * one_day - sixty_days - one_second)) (PInt 1)])
     (order_frame [order_row (PStr (str ''100'')) (PInt (1000 * one_day - sixty_days + one_second)),
                   order_row (PStr (str ''101'')) (PInt (1000 * one_day - sixty_days))]) =
     Inr ([''100''], [''201'']) \<and>
   classify (1000 * one_day)
     [\<lparr>order_item = ''100'', sale_date = Some (1000 * one_day - sixty_days - one_second)\<rparr>] [] =
     Inr ([], [])"
proof -
  have h1: "load_orders to_datetime_ns
     (order_frame [order_row (PStr (str ''100'')) (PInt (1000 * one_day - sixty_days + one_second)),
                   order_row (PStr (str ''101'')) (PInt (1000 * one_day - sixty_days))]) =
     Inr [\<lparr>order_item = ''100'', sale_date = Some (1000 * one_day - sixty_days + one_second)\<rparr>,
          \<lparr>order_item = ''101'', sale_date = Some (1000 * one_day - sixty_days)\<rparr>]"
    by code_simp
  have h2: "load_listings to_datetime_ns
     (listing_frame [listing_row (PStr (str ''200'')) (PInt (1000 * one_day - sixty_days)) (PInt 1),
                     listing_row (PStr (str ''201'')) (PInt (1000 * one_day - sixty_days - one_second)) (PInt 1)]) =
     Inr [\<lparr>listing_item = ''200'', start_date = Some (1000 * one_day - sixty_days),
            available_quantity = PInt 1\<rparr>,
          \<lparr>listing_item = ''201'', start_date = Some (1000 * one_day - sixty_days - one_second),
            available_quantity = PInt 1\<rparr>]"
    by code_simp
  have h3: "process_ebay_data to_datetime_ns (1000 * one_day)
     (listing_frame [listing_row (PStr (str ''200'')) (PInt (1000 * one_day - sixty_days)) (PInt 1),
                     listing_row (PStr (str ''201'')) (PInt (1000 * one_day - sixty_days - one_second)) (PInt 1)])
     (order_frame [order_row (PStr (str ''100'')) (PInt (1000 * one_day - sixty_days + one_second)),
                   order_row (PStr (str ''101'')) (PInt (1000 * one_day - sixty_days))]) =
     Inr ([''100''], [''201''])"
    by code_simp
  from cutoff_is_strict [OF h1 h2 h3, of "''100''"] h1 h2 h3 show ?thesis by blast
qed

text \<open>
  The claim as it was stated fails on a sale 60 days and one second before now: it
  lies before the cutoff, and the Sold frame stays empty.
\<close>

theorem cutoff_is_strict_counterexample:
  "process_ebay_data to_datetime_ns (1000 * one_day) (listing_frame [])
     (order_frame [order_row (PStr (str ''100'')) (PInt (1000 * one_day - sixty_days - one_second))]) =
   Inr ([], [])"
  by code_simp

end
